theory Spec2Isabelle
  imports Main
begin

section \<open>Python values\<close>

text \<open>
  Values that travel through the gateway are the values of parsed JSON: request bodies,
  the SSO provider's answer, token payloads and the cells of the \<^verbatim>\<open>users\<close> table. A JSON
  object is an association list; a lookup takes the first binding of a key. Numbers are
  Python \<^verbatim>\<open>int\<close>s; JSON numbers with a fraction or an exponent (Python floats) are not
  part of the model. Strings are character lists; case folding and white space are exact
  for ASCII.
\<close>

datatype json =
    JNull
  | JBool bool
  | JInt int
  | JStr string
  | JArray "json list"
  | JObject "(string \<times> json) list"

type_synonym pydict = "(string \<times> json) list"

text \<open>The exceptions that occur, by their Python class names.\<close>

datatype py_exception =
    AttributeError
  | KeyError
  | TypeError
  | JSONDecodeError
  | TransportError
  | InterfaceError
  | IntegrityError
  | OverflowError
  | HTTPException nat string
  | DecodeError
  | InvalidAlgorithmError
  | InvalidSignatureError
  | ExpiredSignatureError
  | ImmatureSignatureError
  | InvalidIssuedAtError
  | InvalidAudienceError

definition bind_exc :: "py_exception + 'a \<Rightarrow> ('a \<Rightarrow> py_exception + 'b) \<Rightarrow> py_exception + 'b" where
  "bind_exc r f = (case r of Inl e \<Rightarrow> Inl e | Inr x \<Rightarrow> f x)"

text \<open>Python truth value of a JSON value (\<^verbatim>\<open>bool(x)\<close>).\<close>

fun truthy :: "json \<Rightarrow> bool" where
  "truthy JNull = False"
| "truthy (JBool b) = b"
| "truthy (JInt i) = (i \<noteq> 0)"
| "truthy (JStr s) = (s \<noteq> [])"
| "truthy (JArray xs) = (xs \<noteq> [])"
| "truthy (JObject kvs) = (kvs \<noteq> [])"

text \<open>\<^verbatim>\<open>a or b\<close>.\<close>

definition py_or :: "json \<Rightarrow> json \<Rightarrow> json" where
  "py_or a b = (if truthy a then a else b)"

text \<open>\<^verbatim>\<open>d.get(k, default)\<close> on a plain dict.\<close>

definition dict_get :: "pydict \<Rightarrow> string \<Rightarrow> json \<Rightarrow> json" where
  "dict_get d k dflt = (case map_of d k of Some v \<Rightarrow> v | None \<Rightarrow> dflt)"

text \<open>
  \<^verbatim>\<open>x.get(k, default)\<close> on an arbitrary JSON value: only a dict has the method, every
  other value raises \<^verbatim>\<open>AttributeError\<close>.
\<close>

fun py_get :: "json \<Rightarrow> string \<Rightarrow> json \<Rightarrow> py_exception + json" where
  "py_get (JObject kvs) k dflt = Inr (dict_get kvs k dflt)"
| "py_get _ k dflt = Inl AttributeError"

text \<open>\<^verbatim>\<open>d[k]\<close> on a plain dict.\<close>

definition dict_item :: "pydict \<Rightarrow> string \<Rightarrow> py_exception + json" where
  "dict_item d k = (case map_of d k of Some v \<Rightarrow> Inr v | None \<Rightarrow> Inl KeyError)"

subsection \<open>\<^verbatim>\<open>str()\<close> and \<^verbatim>\<open>repr()\<close>\<close>

definition digit_char :: "nat \<Rightarrow> char" where
  "digit_char n = ''0123456789abcdef'' ! n"

function int_digits :: "int \<Rightarrow> string" where
  "int_digits n =
     (if n < 10 then [digit_char (nat n)]
      else int_digits (n div 10) @ [digit_char (nat (n mod 10))])"
  by pat_completeness auto
termination
  by (relation "measure nat") auto

definition int_str :: "int \<Rightarrow> string" where
  "int_str i = (if i < 0 then CHR ''-'' # int_digits (- i) else int_digits i)"

definition hex2 :: "nat \<Rightarrow> string" where
  "hex2 n = [digit_char (n div 16 mod 16), digit_char (n mod 16)]"

text \<open>
  \<^verbatim>\<open>repr\<close> of a string: single quotes, unless the string holds a single quote and no double
  quote; the chosen quote, the backslash and the control characters are escaped.
\<close>

definition repr_char :: "char \<Rightarrow> char \<Rightarrow> string" where
  "repr_char q c =
     (if c = q then [CHR 0x5C, q]
      else if c = CHR 0x5C then [CHR 0x5C, CHR 0x5C]
      else if c = CHR 0x0A then [CHR 0x5C, CHR ''n'']
      else if c = CHR 0x0D then [CHR 0x5C, CHR ''r'']
      else if c = CHR 0x09 then [CHR 0x5C, CHR ''t'']
      else if (of_char c :: nat) < 32 \<or> (of_char c :: nat) = 127
        then [CHR 0x5C, CHR ''x''] @ hex2 (of_char c)
      else [c])"

definition repr_str :: "string \<Rightarrow> string" where
  "repr_str s =
     (let q = (if CHR 0x27 \<in> set s \<and> CHR 0x22 \<notin> set s then CHR 0x22 else CHR 0x27)
      in q # concat (map (repr_char q) s) @ [q])"

fun join :: "string \<Rightarrow> string list \<Rightarrow> string" where
  "join sep [] = []"
| "join sep [x] = x"
| "join sep (x # y # ys) = x @ sep @ join sep (y # ys)"

fun py_repr :: "json \<Rightarrow> string" where
  "py_repr JNull = ''None''"
| "py_repr (JBool b) = (if b then ''True'' else ''False'')"
| "py_repr (JInt i) = int_str i"
| "py_repr (JStr s) = repr_str s"
| "py_repr (JArray xs) = ''['' @ join '', '' (map py_repr xs) @ '']''"
| "py_repr (JObject kvs) =
     ''{'' @ join '', '' (map (\<lambda>kv. repr_str (fst kv) @ '': '' @ py_repr (snd kv)) kvs) @ ''}''"

fun py_str :: "json \<Rightarrow> string" where
  "py_str (JStr s) = s"
| "py_str v = py_repr v"

section \<open>SSO token exchange (\<^verbatim>\<open>auth.py\<close>)\<close>

text \<open>
  What the POST to the validation endpoint yields: a transport failure (time-out, refused
  connection, any \<^verbatim>\<open>httpx\<close> error), or a response with its status code and the value of
  \<^verbatim>\<open>resp.json()\<close>, \<open>None\<close> when the body is not JSON and \<^verbatim>\<open>resp.json()\<close> raises.
\<close>

datatype http_outcome = TransportFailure | Response nat "json option"

text \<open>
  The body of the \<^verbatim>\<open>try\<close> block. The dict literal evaluates its entries in order, and the
  default of each \<^verbatim>\<open>get\<close> before the \<^verbatim>\<open>get\<close> itself.
\<close>

definition identity_of_body :: "json \<Rightarrow> py_exception + pydict" where
  "identity_of_body body =
     bind_exc (py_get body ''data'' JNull) (\<lambda>d. let data = py_or d body in
     bind_exc (py_get data ''user_info'' JNull) (\<lambda>u. let user_info = py_or u data in
     bind_exc (py_get data ''balance'' JNull) (\<lambda>b. let balance = py_or b (JObject []) in
     bind_exc (py_get user_info ''id'' (JStr [])) (\<lambda>id_dflt.
     bind_exc (py_get user_info ''user_id'' id_dflt) (\<lambda>uid.
     bind_exc (py_get user_info ''name'' (JStr [])) (\<lambda>name_dflt.
     bind_exc (py_get user_info ''user_name'' name_dflt) (\<lambda>uname.
     bind_exc (py_get user_info ''api_key'' (JStr [])) (\<lambda>key_dflt.
     bind_exc (py_get data ''api_key'' key_dflt) (\<lambda>api_key.
     bind_exc (py_get data ''credit'' (JInt 0)) (\<lambda>credit_dflt.
     bind_exc (py_get balance ''credit'' credit_dflt) (\<lambda>credit.
     bind_exc (py_get data ''token'' (JInt 0)) (\<lambda>token_dflt.
     bind_exc (py_get balance ''token'' token_dflt) (\<lambda>token.
     bind_exc (py_get user_info ''role'' (JStr ''user'')) (\<lambda>role.
       Inr [(''user_id'', JStr (py_str uid)),
            (''user_name'', uname),
            (''api_key'', api_key),
            (''credit'', credit),
            (''token'', token),
            (''role'', role)]))))))))))))))"

fun exchange_try :: "http_outcome \<Rightarrow> py_exception + pydict option" where
  "exchange_try TransportFailure = Inl TransportError"
| "exchange_try (Response status parsed) =
     (if status = 200 then
        (case parsed of
           None \<Rightarrow> Inl JSONDecodeError
         | Some body \<Rightarrow> bind_exc (identity_of_body body) (\<lambda>d. Inr (Some d)))
      else Inr None)"

text \<open>
  \<^verbatim>\<open>exchange_sso_token\<close>: \<open>remote\<close> is the validation endpoint, from the value of the
  \<^verbatim>\<open>Authorization\<close> header to what the call yields. \<^verbatim>\<open>except Exception\<close> turns every
  exception of the block into \<open>None\<close>.
\<close>

definition exchange_sso_token :: "(string \<Rightarrow> http_outcome) \<Rightarrow> string \<Rightarrow> pydict option" where
  "exchange_sso_token remote sso_token =
     (case exchange_try (remote (''Bearer '' @ sso_token)) of
        Inl e \<Rightarrow> None
      | Inr r \<Rightarrow> r)"

section \<open>Strings\<close>

definition is_space :: "char \<Rightarrow> bool" where
  "is_space c = ((of_char c :: nat) \<in> {9, 10, 11, 12, 13, 28, 29, 30, 31, 32})"

text \<open>\<^verbatim>\<open>s.strip()\<close>\<close>

definition strip :: "string \<Rightarrow> string" where
  "strip s = rev (dropWhile is_space (rev (dropWhile is_space s)))"

definition lower_char :: "char \<Rightarrow> char" where
  "lower_char c =
     (if 65 \<le> (of_char c :: nat) \<and> (of_char c :: nat) \<le> 90 then char_of ((of_char c :: nat) + 32)
      else c)"

text \<open>\<^verbatim>\<open>s.lower()\<close>\<close>

definition lower :: "string \<Rightarrow> string" where
  "lower s = map lower_char s"

text \<open>\<^verbatim>\<open>s.replace(old, new)\<close> for one-character \<open>old\<close> and \<open>new\<close>.\<close>

definition replace_char :: "char \<Rightarrow> char \<Rightarrow> string \<Rightarrow> string" where
  "replace_char old new s = map (\<lambda>c. if c = old then new else c) s"

text \<open>\<^verbatim>\<open>s.startswith(p)\<close>\<close>

definition startswith :: "string \<Rightarrow> string \<Rightarrow> bool" where
  "startswith p s = (take (length p) s = p)"

text \<open>
  \<^verbatim>\<open>x.strip()\<close> and \<^verbatim>\<open>len(x)\<close> on a JSON value: only a string can be stripped; strings, lists
  and dicts have a length.
\<close>

fun py_strip :: "json \<Rightarrow> py_exception + string" where
  "py_strip (JStr s) = Inr (strip s)"
| "py_strip _ = Inl AttributeError"

fun py_len :: "json \<Rightarrow> py_exception + nat" where
  "py_len (JStr s) = Inr (length s)"
| "py_len (JArray xs) = Inr (length xs)"
| "py_len (JObject kvs) = Inr (length kvs)"
| "py_len _ = Inl TypeError"

text \<open>\<^verbatim>\<open>d[k] = v\<close>: replaces the value of an existing key in place, appends a new key.\<close>

fun dict_set :: "pydict \<Rightarrow> string \<Rightarrow> json \<Rightarrow> pydict" where
  "dict_set [] k v = [(k, v)]"
| "dict_set (p # ps) k v = (if fst p = k then (k, v) # ps else p # dict_set ps k v)"

section \<open>The process environment\<close>

text \<open>
  The signing secret of the configuration, and the library primitives the gateway calls:
  SHA-256 with hexadecimal output (\<^verbatim>\<open>hashlib\<close>), HMAC-SHA256 (key, then message),
  unpadded URL-safe base64, and the JSON text codec. They are parameters: the theorems hold
  for every choice, under the hypotheses they state.
\<close>

record env =
  JWT_SECRET :: string
  sha256_hexdigest :: "string \<Rightarrow> string"
  hmac_sha256 :: "string \<Rightarrow> string \<Rightarrow> string"
  b64url_encode :: "string \<Rightarrow> string"
  b64url_decode :: "string \<Rightarrow> string option"
  json_dumps :: "json \<Rightarrow> string"
  json_loads :: "string \<Rightarrow> json option"

definition JWT_ALGORITHM :: string where
  "JWT_ALGORITHM = ''HS256''"

definition JWT_EXPIRY :: int where
  "JWT_EXPIRY = 60 * 60 * 24 * 7"

section \<open>The token library\<close>

text \<open>
  \<^verbatim>\<open>jwt.encode\<close> and \<^verbatim>\<open>jwt.decode\<close> of PyJWT, as far as the gateway uses them: compact
  serialisation with an HS256 signature, and on decoding the checks of the segments, the
  algorithm, the signature and the registered claims, in the library's order. The time of
  verification \<open>now\<close> is in whole seconds. A time claim that is not an integer is rejected;
  the corner cases of the library's conversion with \<^verbatim>\<open>int()\<close> are not modelled.
\<close>

definition split_first :: "char \<Rightarrow> string \<Rightarrow> (string \<times> string) option" where
  "split_first c s =
     (if c \<in> set s then Some (takeWhile (\<lambda>x. x \<noteq> c) s, tl (dropWhile (\<lambda>x. x \<noteq> c) s))
      else None)"

definition split_last :: "char \<Rightarrow> string \<Rightarrow> (string \<times> string) option" where
  "split_last c s =
     (case split_first c (rev s) of
        None \<Rightarrow> None
      | Some (a, b) \<Rightarrow> Some (rev b, rev a))"

definition jwt_header :: json where
  "jwt_header = JObject [(''alg'', JStr JWT_ALGORITHM), (''typ'', JStr ''JWT'')]"

definition jwt_encode :: "env \<Rightarrow> pydict \<Rightarrow> string \<Rightarrow> string" where
  "jwt_encode E payload key =
     (let signing_input =
            b64url_encode E (json_dumps E jwt_header) @ ''.''
            @ b64url_encode E (json_dumps E (JObject payload))
      in signing_input @ ''.'' @ b64url_encode E (hmac_sha256 E key signing_input))"

text \<open>The segments of a token: payload bytes, signing input, header, signature.\<close>

definition jws_load :: "env \<Rightarrow> string \<Rightarrow> py_exception + (string \<times> string \<times> pydict \<times> string)" where
  "jws_load E token =
     (case split_last CHR ''.'' token of
        None \<Rightarrow> Inl DecodeError
      | Some (signing_input, crypto_segment) \<Rightarrow>
     (case split_first CHR ''.'' signing_input of
        None \<Rightarrow> Inl DecodeError
      | Some (header_segment, payload_segment) \<Rightarrow>
     (case b64url_decode E header_segment of
        None \<Rightarrow> Inl DecodeError
      | Some header_data \<Rightarrow>
     (case json_loads E header_data of
        Some (JObject header) \<Rightarrow>
          (case b64url_decode E payload_segment of
             None \<Rightarrow> Inl DecodeError
           | Some payload \<Rightarrow>
          (case b64url_decode E crypto_segment of
             None \<Rightarrow> Inl DecodeError
           | Some signature \<Rightarrow> Inr (payload, signing_input, header, signature)))
      | _ \<Rightarrow> Inl DecodeError))))"

definition verify_signature ::
  "env \<Rightarrow> string \<Rightarrow> pydict \<Rightarrow> string \<Rightarrow> string \<Rightarrow> string list \<Rightarrow> py_exception + unit" where
  "verify_signature E signing_input header signature key algorithms =
     (case map_of header ''alg'' of
        None \<Rightarrow> Inl InvalidAlgorithmError
      | Some alg \<Rightarrow>
          if \<not> truthy alg \<or> alg \<notin> set (map JStr algorithms) then Inl InvalidAlgorithmError
          else if alg \<noteq> JStr ''HS256'' then Inl InvalidAlgorithmError
          else if hmac_sha256 E key signing_input \<noteq> signature then Inl InvalidSignatureError
          else Inr ())"

definition validate_iat :: "pydict \<Rightarrow> int \<Rightarrow> py_exception + unit" where
  "validate_iat payload now =
     (case map_of payload ''iat'' of
        None \<Rightarrow> Inr ()
      | Some (JInt iat) \<Rightarrow> if iat > now then Inl ImmatureSignatureError else Inr ()
      | Some _ \<Rightarrow> Inl InvalidIssuedAtError)"

definition validate_nbf :: "pydict \<Rightarrow> int \<Rightarrow> py_exception + unit" where
  "validate_nbf payload now =
     (case map_of payload ''nbf'' of
        None \<Rightarrow> Inr ()
      | Some (JInt nbf) \<Rightarrow> if nbf > now then Inl ImmatureSignatureError else Inr ()
      | Some _ \<Rightarrow> Inl DecodeError)"

definition validate_exp :: "pydict \<Rightarrow> int \<Rightarrow> py_exception + unit" where
  "validate_exp payload now =
     (case map_of payload ''exp'' of
        None \<Rightarrow> Inr ()
      | Some (JInt exp) \<Rightarrow> if exp \<le> now then Inl ExpiredSignatureError else Inr ()
      | Some _ \<Rightarrow> Inl DecodeError)"

text \<open>No audience is passed by the gateway, so a token that names one is refused.\<close>

definition validate_aud :: "pydict \<Rightarrow> py_exception + unit" where
  "validate_aud payload =
     (case map_of payload ''aud'' of
        None \<Rightarrow> Inr ()
      | Some aud \<Rightarrow> if truthy aud then Inl InvalidAudienceError else Inr ())"

definition validate_claims :: "pydict \<Rightarrow> int \<Rightarrow> py_exception + unit" where
  "validate_claims payload now =
     bind_exc (validate_iat payload now) (\<lambda>_.
     bind_exc (validate_nbf payload now) (\<lambda>_.
     bind_exc (validate_exp payload now) (\<lambda>_.
       validate_aud payload)))"

definition jwt_decode :: "env \<Rightarrow> string \<Rightarrow> string \<Rightarrow> string list \<Rightarrow> int \<Rightarrow> py_exception + pydict" where
  "jwt_decode E token key algorithms now =
     bind_exc (jws_load E token) (\<lambda>(payload_data, signing_input, header, signature).
     bind_exc (verify_signature E signing_input header signature key algorithms) (\<lambda>_.
       (case json_loads E payload_data of
          Some (JObject payload) \<Rightarrow> bind_exc (validate_claims payload now) (\<lambda>_. Inr payload)
        | _ \<Rightarrow> Inl DecodeError)))"

text \<open>The subclasses of \<^verbatim>\<open>jwt.InvalidTokenError\<close>.\<close>

definition is_InvalidTokenError :: "py_exception \<Rightarrow> bool" where
  "is_InvalidTokenError e =
     (e \<in> {DecodeError, InvalidAlgorithmError, InvalidSignatureError, ExpiredSignatureError,
            ImmatureSignatureError, InvalidIssuedAtError, InvalidAudienceError})"

section \<open>Session tokens (\<^verbatim>\<open>auth.py\<close>)\<close>

text \<open>
  \<^verbatim>\<open>create_jwt\<close> reads the clock twice, once for \<^verbatim>\<open>iat\<close> and once for \<^verbatim>\<open>exp\<close>: \<open>now_iat\<close> and
  \<open>now_exp\<close> are the two values of \<^verbatim>\<open>int(time.time())\<close>, in this order.
\<close>

definition create_jwt :: "env \<Rightarrow> int \<Rightarrow> int \<Rightarrow> json \<Rightarrow> json \<Rightarrow> json \<Rightarrow> string" where
  "create_jwt E now_iat now_exp user_id user_name role =
     jwt_encode E
       [(''sub'', user_id),
        (''name'', user_name),
        (''role'', role),
        (''iat'', JInt now_iat),
        (''exp'', JInt (now_exp + JWT_EXPIRY))]
       (JWT_SECRET E)"

text \<open>
  \<^verbatim>\<open>verify_jwt\<close>: the two \<^verbatim>\<open>except\<close> clauses give \<open>None\<close>; an exception of another class would
  pass to the caller.
\<close>

definition verify_jwt :: "env \<Rightarrow> int \<Rightarrow> string \<Rightarrow> py_exception + pydict option" where
  "verify_jwt E now token =
     (case jwt_decode E token (JWT_SECRET E) [JWT_ALGORITHM] now of
        Inr payload \<Rightarrow> Inr (Some payload)
      | Inl e \<Rightarrow>
          if e = ExpiredSignatureError then Inr None
          else if is_InvalidTokenError e then Inr None
          else Inl e)"

text \<open>
  A request: its cookies, its headers (by lower-case name, as the framework looks them
  up), and the value of \<^verbatim>\<open>await request.json()\<close>, \<open>None\<close> when the body is not JSON.
\<close>

record request =
  req_cookies :: "string \<rightharpoonup> string"
  req_headers :: "string \<rightharpoonup> string"
  req_json :: "json option"

definition extract_jwt_from_request :: "request \<Rightarrow> string option" where
  "extract_jwt_from_request req =
     (let token = req_cookies req ''sci_token'' in
      if token \<noteq> None \<and> token \<noteq> Some [] then token
      else
        (let auth = (case req_headers req ''authorization'' of Some a \<Rightarrow> a | None \<Rightarrow> [])
         in if startswith ''Bearer '' auth then Some (drop 7 auth) else None))"

text \<open>\<^verbatim>\<open>hash_password\<close>: a value without \<^verbatim>\<open>encode\<close> raises.\<close>

fun hash_password :: "env \<Rightarrow> json \<Rightarrow> py_exception + string" where
  "hash_password E (JStr password) = Inr (sha256_hexdigest E password)"
| "hash_password E _ = Inl AttributeError"

section \<open>The user directory (\<^verbatim>\<open>database.py\<close>)\<close>

text \<open>
  A row of the \<^verbatim>\<open>users\<close> table. SQLite is dynamically typed: a cell holds the value that
  was bound. The conversions of column affinity (a number bound to a \<^verbatim>\<open>TEXT\<close> column is
  stored as text) are not modelled. The table is the list of its rows in the order of
  their row ids, which is the order of a scan.
\<close>

record user_row =
  col_id :: nat
  col_user_id :: json
  col_user_name :: json
  col_role :: json
  col_credit :: json
  col_token :: json
  col_sso_token :: json
  col_api_key :: json
  col_created_at :: string
  col_updated_at :: string

text \<open>SQL equality: \<^verbatim>\<open>NULL\<close> equals nothing.\<close>

definition sql_eq :: "json \<Rightarrow> json \<Rightarrow> bool" where
  "sql_eq a b = (a \<noteq> JNull \<and> b \<noteq> JNull \<and> a = b)"

text \<open>
  Binding a Python value to a statement parameter: lists and dicts are refused, an
  integer must fit 64 bits, a \<^verbatim>\<open>bool\<close> is an integer.
\<close>

fun bind_param :: "json \<Rightarrow> py_exception + json" where
  "bind_param (JArray xs) = Inl InterfaceError"
| "bind_param (JObject kvs) = Inl InterfaceError"
| "bind_param (JInt i) = (if - (2 ^ 63) \<le> i \<and> i < 2 ^ 63 then Inr (JInt i) else Inl OverflowError)"
| "bind_param (JBool b) = Inr (JInt (if b then 1 else 0))"
| "bind_param v = Inr v"

text \<open>The next value of the \<^verbatim>\<open>AUTOINCREMENT\<close> key (rows are never deleted).\<close>

definition next_id :: "user_row list \<Rightarrow> nat" where
  "next_id db = Suc (foldr max (map col_id db) 0)"

text \<open>\<^verbatim>\<open>dict(row)\<close>\<close>

definition row_dict :: "user_row \<Rightarrow> pydict" where
  "row_dict r =
     [(''id'', JInt (int (col_id r))),
      (''user_id'', col_user_id r),
      (''user_name'', col_user_name r),
      (''role'', col_role r),
      (''credit'', col_credit r),
      (''token'', col_token r),
      (''sso_token'', col_sso_token r),
      (''api_key'', col_api_key r),
      (''created_at'', JStr (col_created_at r)),
      (''updated_at'', JStr (col_updated_at r))]"

text \<open>
  The statements of \<^verbatim>\<open>upsert_user\<close> up to the commit: the table they produce, or the
  exception that one of them raises (a missing \<^verbatim>\<open>user_id\<close>, a value that cannot be bound,
  a \<^verbatim>\<open>NOT NULL\<close> column given \<^verbatim>\<open>NULL\<close>). \<open>now\<close> is \<^verbatim>\<open>datetime.utcnow().isoformat()\<close>.
\<close>

definition upsert_statements ::
  "string \<Rightarrow> user_row list \<Rightarrow> pydict \<Rightarrow> string \<Rightarrow> py_exception + user_row list" where
  "upsert_statements now db user_info sso_token =
     bind_exc (dict_item user_info ''user_id'') (\<lambda>uid0.
     bind_exc (bind_param uid0) (\<lambda>uid.
       (case find (\<lambda>r. sql_eq (col_user_id r) uid) db of
          Some existing \<Rightarrow>
            bind_exc (bind_param (dict_get user_info ''user_name'' (JStr []))) (\<lambda>user_name.
            bind_exc (bind_param (dict_get user_info ''api_key'' (JStr []))) (\<lambda>api_key.
            bind_exc (bind_param (dict_get user_info ''credit'' (JInt 0))) (\<lambda>credit.
            bind_exc (bind_param (dict_get user_info ''token'' (JInt 0))) (\<lambda>token.
              if user_name = JNull then Inl IntegrityError
              else Inr (map (\<lambda>r. if sql_eq (col_user_id r) uid
                                  then r\<lparr>col_user_name := user_name,
                                         col_sso_token := JStr sso_token,
                                         col_api_key := api_key,
                                         col_credit := credit,
                                         col_token := token,
                                         col_updated_at := now\<rparr>
                                  else r) db)))))
        | None \<Rightarrow>
            bind_exc (bind_param (dict_get user_info ''user_name'' (JStr []))) (\<lambda>user_name.
            bind_exc (bind_param (dict_get user_info ''role'' (JStr ''user''))) (\<lambda>role.
            bind_exc (bind_param (dict_get user_info ''credit'' (JInt 0))) (\<lambda>credit.
            bind_exc (bind_param (dict_get user_info ''token'' (JInt 0))) (\<lambda>token.
            bind_exc (bind_param (dict_get user_info ''api_key'' (JStr []))) (\<lambda>api_key.
              if uid = JNull \<or> user_name = JNull then Inl IntegrityError
              else Inr (db @ [\<lparr>col_id = next_id db,
                               col_user_id = uid,
                               col_user_name = user_name,
                               col_role = role,
                               col_credit = credit,
                               col_token = token,
                               col_sso_token = JStr sso_token,
                               col_api_key = api_key,
                               col_created_at = now,
                               col_updated_at = now\<rparr>])))))))))"

text \<open>
  \<^verbatim>\<open>upsert_user\<close>: the result or the exception, and the table afterwards. An exception
  leaves the function before the commit.
\<close>

definition upsert_user ::
  "string \<Rightarrow> user_row list \<Rightarrow> pydict \<Rightarrow> string \<Rightarrow> (py_exception + pydict) \<times> user_row list" where
  "upsert_user now db user_info sso_token =
     (case upsert_statements now db user_info sso_token of
        Inl e \<Rightarrow> (Inl e, db)
      | Inr db' \<Rightarrow> (Inr user_info, db'))"

definition get_user :: "user_row list \<Rightarrow> json \<Rightarrow> py_exception + pydict option" where
  "get_user db user_id =
     bind_exc (bind_param user_id) (\<lambda>uid.
       Inr (map_option row_dict (find (\<lambda>r. sql_eq (col_user_id r) uid) db)))"

section \<open>The authentication dependencies (\<^verbatim>\<open>auth.py\<close>)\<close>

definition build_user_dict :: "pydict \<Rightarrow> pydict option \<Rightarrow> py_exception + pydict" where
  "build_user_dict payload db_user =
     bind_exc (dict_item payload ''sub'') (\<lambda>sub.
       (let user = [(''user_id'', sub),
                    (''user_name'', dict_get payload ''name'' (JStr [])),
                    (''role'', dict_get payload ''role'' (JStr ''user''))]
        in case db_user of
             None \<Rightarrow> Inr user
           | Some row \<Rightarrow>
               if row = [] then Inr user
               else
                 (let user1 = dict_set user ''user_name''
                                (py_or (dict_get row ''user_name'' JNull) (dict_get user ''user_name'' JNull));
                      user2 = dict_set user1 ''role''
                                (py_or (dict_get row ''role'' JNull) (dict_get user1 ''role'' JNull));
                      user3 = dict_set user2 ''credit'' (dict_get row ''credit'' (JInt 0));
                      user4 = dict_set user3 ''token'' (dict_get row ''token'' (JInt 0))
                  in Inr user4)))"

text \<open>\<open>now\<close> is the time at which the token is verified, in whole seconds.\<close>

definition get_current_user :: "env \<Rightarrow> int \<Rightarrow> user_row list \<Rightarrow> request \<Rightarrow> py_exception + pydict" where
  "get_current_user E now db req =
     (case extract_jwt_from_request req of
        None \<Rightarrow> Inl (HTTPException 401 ''Not authenticated'')
      | Some token \<Rightarrow>
          if token = [] then Inl (HTTPException 401 ''Not authenticated'')
          else
            bind_exc (verify_jwt E now token) (\<lambda>verified.
              (case verified of
                 None \<Rightarrow> Inl (HTTPException 401 ''Invalid or expired token'')
               | Some payload \<Rightarrow>
                   if payload = [] then Inl (HTTPException 401 ''Invalid or expired token'')
                   else
                     bind_exc (dict_item payload ''sub'') (\<lambda>sub.
                     bind_exc (get_user db sub) (\<lambda>db_user.
                       build_user_dict payload db_user)))))"

definition get_optional_user ::
  "env \<Rightarrow> int \<Rightarrow> user_row list \<Rightarrow> request \<Rightarrow> py_exception + pydict option" where
  "get_optional_user E now db req =
     (case extract_jwt_from_request req of
        None \<Rightarrow> Inr None
      | Some token \<Rightarrow>
          if token = [] then Inr None
          else
            bind_exc (verify_jwt E now token) (\<lambda>verified.
              (case verified of
                 None \<Rightarrow> Inr None
               | Some payload \<Rightarrow>
                   if payload = [] then Inr None
                   else
                     bind_exc (dict_item payload ''sub'') (\<lambda>sub.
                     bind_exc (get_user db sub) (\<lambda>db_user.
                     bind_exc (build_user_dict payload db_user) (\<lambda>user.
                       Inr (Some user)))))))"

section \<open>The routes (\<^verbatim>\<open>app.py\<close>)\<close>

text \<open>
  A response: JSON content or a redirect with its status code, and the cookie it sets (name
  and value; the attributes of the cookie are constants).
\<close>

datatype response =
    JSONResponse pydict "(string \<times> string) option"
  | RedirectResponse string nat "(string \<times> string) option"

text \<open>The subject id of a local account: \<^verbatim>\<open>f"local_{username.lower().replace(' ', '_')}"\<close>.\<close>

definition local_user_id :: "string \<Rightarrow> string" where
  "local_user_id username = ''local_'' @ replace_char CHR '' '' CHR ''_'' (lower username)"

text \<open>The first lines of both local routes: the trimmed user name and the password.\<close>

definition credentials_of :: "request \<Rightarrow> py_exception + (string \<times> json)" where
  "credentials_of req =
     (case req_json req of
        None \<Rightarrow> Inl JSONDecodeError
      | Some data \<Rightarrow>
          bind_exc (py_get data ''username'' JNull) (\<lambda>u.
          bind_exc (py_strip (py_or u (JStr []))) (\<lambda>username.
          bind_exc (py_get data ''password'' (JStr [])) (\<lambda>password.
            Inr (username, password)))))"

definition local_login ::
  "env \<Rightarrow> int \<Rightarrow> int \<Rightarrow> user_row list \<Rightarrow> request \<Rightarrow> py_exception + response" where
  "local_login E now_iat now_exp db req =
     bind_exc (credentials_of req) (\<lambda>(username, password).
       if username = [] \<or> \<not> truthy password
       then Inl (HTTPException 400 ''Username and password are required'')
       else
         bind_exc (hash_password E password) (\<lambda>pw_hash.
           (let user_id = local_user_id username in
            case find (\<lambda>r. (sql_eq (col_user_id r) (JStr user_id)
                              \<or> sql_eq (col_user_name r) (JStr username))
                            \<and> sql_eq (col_sso_token r) (JStr pw_hash)) db of
              None \<Rightarrow> Inl (HTTPException 401 ''Invalid username or password'')
            | Some user \<Rightarrow>
                (let jwt_token = create_jwt E now_iat now_exp
                                   (col_user_id user) (col_user_name user) (col_role user)
                 in Inr (JSONResponse
                           [(''user_id'', col_user_id user),
                            (''user_name'', col_user_name user),
                            (''redirect'', JStr ''/'')]
                           (Some (''sci_token'', jwt_token)))))))"

text \<open>
  \<^verbatim>\<open>local_register\<close>: the response or the exception, and the table afterwards. \<open>now\<close> is the
  time stamp of the insertion.
\<close>

definition local_register ::
  "env \<Rightarrow> string \<Rightarrow> int \<Rightarrow> int \<Rightarrow> user_row list \<Rightarrow> request
     \<Rightarrow> (py_exception + response) \<times> user_row list" where
  "local_register E now now_iat now_exp db req =
     (case credentials_of req of
        Inl e \<Rightarrow> (Inl e, db)
      | Inr (username, password) \<Rightarrow>
          if username = [] \<or> \<not> truthy password
          then (Inl (HTTPException 400 ''Username and password are required''), db)
          else
            (case py_len password of
               Inl e \<Rightarrow> (Inl e, db)
             | Inr n \<Rightarrow>
                 if n < 8
                 then (Inl (HTTPException 400 ''Password must be at least 8 characters''), db)
                 else
                   (case hash_password E password of
                      Inl e \<Rightarrow> (Inl e, db)
                    | Inr pw_hash \<Rightarrow>
                        (let user_id = local_user_id username in
                         case find (\<lambda>r. sql_eq (col_user_id r) (JStr user_id)
                                         \<or> sql_eq (col_user_name r) (JStr username)) db of
                           Some existing \<Rightarrow>
                             (Inl (HTTPException 400 ''Username already taken''), db)
                         | None \<Rightarrow>
                             (case upsert_user now db
                                     [(''user_id'', JStr user_id),
                                      (''user_name'', JStr username),
                                      (''role'', JStr ''user'')]
                                     pw_hash of
                                (Inl e, db') \<Rightarrow> (Inl e, db')
                              | (Inr _, db') \<Rightarrow>
                                  (let jwt_token = create_jwt E now_iat now_exp
                                                     (JStr user_id) (JStr username) (JStr ''user'')
                                   in (Inr (JSONResponse
                                              [(''user_id'', JStr user_id),
                                               (''user_name'', JStr username),
                                               (''status'', JStr ''registered''),
                                               (''redirect'', JStr ''/'')]
                                              (Some (''sci_token'', jwt_token))),
                                       db')))))))"

text \<open>
  \<^verbatim>\<open>sso_callback\<close>: the four query parameters, the first non-empty one is the token.
\<close>

definition sso_callback ::
  "env \<Rightarrow> (string \<Rightarrow> http_outcome) \<Rightarrow> string \<Rightarrow> int \<Rightarrow> int \<Rightarrow> user_row list
     \<Rightarrow> string \<Rightarrow> string \<Rightarrow> string \<Rightarrow> string \<Rightarrow> (py_exception + response) \<times> user_row list" where
  "sso_callback E remote now now_iat now_exp db access_token token code sso_token =
     (let tok = (if access_token \<noteq> [] then access_token
                 else if token \<noteq> [] then token
                 else if code \<noteq> [] then code
                 else sso_token)
      in if tok = []
         then (Inr (RedirectResponse ''/login?error=No+token+received'' 307 None), db)
         else
           (case exchange_sso_token remote tok of
              None \<Rightarrow> (Inr (RedirectResponse ''/login?error=SSO+validation+failed'' 307 None), db)
            | Some user_info \<Rightarrow>
                if user_info = [] \<or> \<not> truthy (dict_get user_info ''user_id'' JNull)
                then (Inr (RedirectResponse ''/login?error=SSO+validation+failed'' 307 None), db)
                else
                  (case upsert_user now db user_info tok of
                     (Inl e, db') \<Rightarrow> (Inl e, db')
                   | (Inr _, db') \<Rightarrow>
                       (case dict_item user_info ''user_id'' of
                          Inl e \<Rightarrow> (Inl e, db')
                        | Inr uid \<Rightarrow>
                            (let jwt_token = create_jwt E now_iat now_exp uid
                                               (dict_get user_info ''user_name'' (JStr []))
                                               (dict_get user_info ''role'' (JStr ''user''))
                             in (Inr (RedirectResponse ''/'' 302 (Some (''sci_token'', jwt_token))),
                                 db'))))))"

section \<open>Rejected tokens\<close>

text \<open>
  The parts of a well-formed token: header, claims, signing input and signature. The
  reasons for which a token is refused are stated on them.
\<close>

definition token_parts :: "env \<Rightarrow> string \<Rightarrow> (pydict \<times> pydict \<times> string \<times> string) option" where
  "token_parts E token =
     (case jws_load E token of
        Inl e \<Rightarrow> None
      | Inr (payload_data, signing_input, header, signature) \<Rightarrow>
          (case json_loads E payload_data of
             Some (JObject payload) \<Rightarrow> Some (header, payload, signing_input, signature)
           | _ \<Rightarrow> None))"






section \<open>A reference environment\<close>

text \<open>
  A concrete environment, on which the routes are evaluated at concrete inputs: the
  default secret of the source, unpadded URL-safe base64 with a strict decoder, compact JSON
  text with a parser for it, and a short checksum in the place of SHA-256 and of
  HMAC-SHA256. The checksum is not a cryptographic function; it is only ever evaluated.
\<close>

definition b64_alphabet :: string where
  "b64_alphabet = ''ABCDEFGHIJKLMNOPQRSTUVWXYZabcdefghijklmnopqrstuvwxyz0123456789-_''"

definition b64_char :: "nat \<Rightarrow> char" where
  "b64_char n = b64_alphabet ! n"

fun b64_groups :: "nat list \<Rightarrow> string" where
  "b64_groups (a # b # c # rest) =
     [b64_char (a div 4), b64_char (a mod 4 * 16 + b div 16),
      b64_char (b mod 16 * 4 + c div 64), b64_char (c mod 64)] @ b64_groups rest"
| "b64_groups [a, b] =
     [b64_char (a div 4), b64_char (a mod 4 * 16 + b div 16), b64_char (b mod 16 * 4)]"
| "b64_groups [a] = [b64_char (a div 4), b64_char (a mod 4 * 16)]"
| "b64_groups [] = []"

definition base64url_encode :: "string \<Rightarrow> string" where
  "base64url_encode s = b64_groups (map of_char s)"

fun index_of :: "char \<Rightarrow> string \<Rightarrow> nat option" where
  "index_of c [] = None"
| "index_of c (x # xs) = (if c = x then Some 0 else map_option Suc (index_of c xs))"

fun b64_values :: "string \<Rightarrow> nat list option" where
  "b64_values [] = Some []"
| "b64_values (c # cs) =
     (case index_of c b64_alphabet of
        None \<Rightarrow> None
      | Some v \<Rightarrow> map_option ((#) v) (b64_values cs))"

fun b64_bytes :: "nat list \<Rightarrow> nat list option" where
  "b64_bytes (p # q # r # s # rest) =
     map_option ((@) [p * 4 + q div 16, q mod 16 * 16 + r div 4, r mod 4 * 64 + s]) (b64_bytes rest)"
| "b64_bytes [p, q, r] = Some [p * 4 + q div 16, q mod 16 * 16 + r div 4]"
| "b64_bytes [p, q] = Some [p * 4 + q div 16]"
| "b64_bytes [p] = None"
| "b64_bytes [] = Some []"

definition base64url_decode :: "string \<Rightarrow> string option" where
  "base64url_decode s =
     (case b64_values s of
        None \<Rightarrow> None
      | Some vs \<Rightarrow> map_option (map char_of) (b64_bytes vs))"


definition json_escape_char :: "char \<Rightarrow> string" where
  "json_escape_char c =
     (if c = CHR 0x22 then [CHR 0x5C, CHR 0x22]
      else if c = CHR 0x5C then [CHR 0x5C, CHR 0x5C]
      else if c = CHR 0x0A then [CHR 0x5C, CHR ''n'']
      else if c = CHR 0x0D then [CHR 0x5C, CHR ''r'']
      else if c = CHR 0x09 then [CHR 0x5C, CHR ''t'']
      else if c = CHR 0x08 then [CHR 0x5C, CHR ''b'']
      else if c = CHR 0x0C then [CHR 0x5C, CHR ''f'']
      else if (of_char c :: nat) < 32 \<or> 127 \<le> (of_char c :: nat)
        then [CHR 0x5C, CHR ''u'', CHR ''0'', CHR ''0''] @ hex2 (of_char c)
      else [c])"

definition json_quote :: "string \<Rightarrow> string" where
  "json_quote s = CHR 0x22 # concat (map json_escape_char s) @ [CHR 0x22]"

fun compact_json :: "json \<Rightarrow> string" where
  "compact_json JNull = ''null''"
| "compact_json (JBool b) = (if b then ''true'' else ''false'')"
| "compact_json (JInt i) = int_str i"
| "compact_json (JStr s) = json_quote s"
| "compact_json (JArray xs) = ''['' @ join '','' (map compact_json xs) @ '']''"
| "compact_json (JObject kvs) =
     ''{'' @ join '','' (map (\<lambda>kv. json_quote (fst kv) @ '':'' @ compact_json (snd kv)) kvs) @ ''}''"

definition hex_value :: "char \<Rightarrow> nat option" where
  "hex_value c = index_of c ''0123456789abcdef''"

definition unescape :: "char \<Rightarrow> char option" where
  "unescape e =
     (if e = CHR 0x22 \<or> e = CHR 0x5C \<or> e = CHR ''/'' then Some e
      else if e = CHR ''n'' then Some (CHR 0x0A)
      else if e = CHR ''r'' then Some (CHR 0x0D)
      else if e = CHR ''t'' then Some (CHR 0x09)
      else if e = CHR ''b'' then Some (CHR 0x08)
      else if e = CHR ''f'' then Some (CHR 0x0C)
      else None)"

definition unicode_escape :: "string \<Rightarrow> char option" where
  "unicode_escape hs =
     (case map hex_value hs of
        [Some a, Some b, Some c, Some d] \<Rightarrow>
          if a = 0 \<and> b = 0 then Some (char_of (c * 16 + d)) else None
      | _ \<Rightarrow> None)"

fun parse_string :: "string \<Rightarrow> string \<Rightarrow> (string \<times> string) option" where
  "parse_string acc [] = None"
| "parse_string acc [c] = (if c = CHR 0x22 then Some (rev acc, []) else None)"
| "parse_string acc (c # e # cs) =
     (if c = CHR 0x22 then Some (rev acc, e # cs)
      else if c = CHR 0x5C then
        (if e = CHR ''u'' then
           (case unicode_escape (take 4 cs) of
              None \<Rightarrow> None
            | Some x \<Rightarrow> parse_string (x # acc) (drop 4 cs))
         else
           (case unescape e of
              None \<Rightarrow> None
            | Some x \<Rightarrow> parse_string (x # acc) cs))
      else parse_string (c # acc) (e # cs))"

definition is_digit :: "char \<Rightarrow> bool" where
  "is_digit c = (48 \<le> (of_char c :: nat) \<and> (of_char c :: nat) \<le> 57)"

definition digits_value :: "string \<Rightarrow> int" where
  "digits_value ds = foldl (\<lambda>a d. 10 * a + (int (of_char d) - 48)) 0 ds"

definition parse_int :: "string \<Rightarrow> (json \<times> string) option" where
  "parse_int s =
     (let negative = startswith ''-'' s;
          r = (if negative then tl s else s);
          ds = takeWhile is_digit r
      in if ds = [] then None
         else Some (JInt (if negative then - digits_value ds else digits_value ds),
                    dropWhile is_digit r))"

fun parse_value :: "nat \<Rightarrow> string \<Rightarrow> (json \<times> string) option"
  and parse_items :: "nat \<Rightarrow> string \<Rightarrow> (json list \<times> string) option"
  and parse_members :: "nat \<Rightarrow> string \<Rightarrow> (pydict \<times> string) option" where
  "parse_value 0 s = None"
| "parse_value (Suc n) [] = None"
| "parse_value (Suc n) (c # cs) =
     (if c = CHR ''n'' \<and> startswith ''ull'' cs then Some (JNull, drop 3 cs)
      else if c = CHR ''t'' \<and> startswith ''rue'' cs then Some (JBool True, drop 3 cs)
      else if c = CHR ''f'' \<and> startswith ''alse'' cs then Some (JBool False, drop 4 cs)
      else if c = CHR 0x22 then map_option (\<lambda>(x, r). (JStr x, r)) (parse_string [] cs)
      else if c = CHR ''['' \<and> startswith '']'' cs then Some (JArray [], tl cs)
      else if c = CHR ''['' then map_option (\<lambda>(xs, r). (JArray xs, r)) (parse_items n cs)
      else if c = CHR ''{'' \<and> startswith ''}'' cs then Some (JObject [], tl cs)
      else if c = CHR ''{'' then map_option (\<lambda>(kvs, r). (JObject kvs, r)) (parse_members n cs)
      else parse_int (c # cs))"
| "parse_items 0 s = None"
| "parse_items (Suc n) [] = None"
| "parse_items (Suc n) (c # cs) =
     (case parse_value n (c # cs) of
        None \<Rightarrow> None
      | Some (v, r) \<Rightarrow>
          if startswith '','' r then
            map_option (\<lambda>(vs, r'). (v # vs, r')) (parse_items n (tl r))
          else if startswith '']'' r then Some ([v], tl r)
          else None)"
| "parse_members 0 s = None"
| "parse_members (Suc n) [] = None"
| "parse_members (Suc n) (c # cs) =
     (if c = CHR 0x22 then
        (case parse_string [] cs of
           None \<Rightarrow> None
         | Some (k, r) \<Rightarrow>
             if startswith '':'' r then
               (case parse_value n (tl r) of
                  None \<Rightarrow> None
                | Some (v, r') \<Rightarrow>
                    if startswith '','' r' then
                      map_option (\<lambda>(kvs, r''). ((k, v) # kvs, r'')) (parse_members n (tl r'))
                    else if startswith ''}'' r' then Some ([(k, v)], tl r')
                    else None)
             else None)
      else None)"

definition parse_json :: "string \<Rightarrow> json option" where
  "parse_json s =
     (case parse_value (Suc (length s)) s of
        Some (v, []) \<Rightarrow> Some v
      | _ \<Rightarrow> None)"

text \<open>The stand-in for the digests.\<close>

definition checksum :: "string \<Rightarrow> string" where
  "checksum s = int_digits (foldl (\<lambda>a c. (a * 31 + of_char c) mod 65521) 1 s)"

definition ref_env :: env where
  "ref_env =
     \<lparr>JWT_SECRET = ''sci_jwt_s3cr3t_k3y_ch4ng3_m3'',
      sha256_hexdigest = checksum,
      hmac_sha256 = (\<lambda>key msg. checksum (key @ msg)),
      b64url_encode = base64url_encode,
      b64url_decode = base64url_decode,
      json_dumps = compact_json,
      json_loads = parse_json\<rparr>"

text \<open>A validation endpoint that gives the same answer to every credential.\<close>

definition answers_with :: "http_outcome \<Rightarrow> string \<Rightarrow> http_outcome" where
  "answers_with outcome auth = outcome"

text \<open>A request that carries a JSON body with a user name and a password, and no token.\<close>

definition credentials_request :: "string \<Rightarrow> string \<Rightarrow> request" where
  "credentials_request username password =
     \<lparr>req_cookies = Map.empty,
      req_headers = Map.empty,
      req_json = Some (JObject [(''username'', JStr username), (''password'', JStr password)])\<rparr>"

text \<open>A request that carries a token in the cookie.\<close>

definition cookie_request :: "string \<Rightarrow> request" where
  "cookie_request token =
     \<lparr>req_cookies = [''sci_token'' \<mapsto> token],
      req_headers = Map.empty,
      req_json = None\<rparr>"

text \<open>The row that the registration of a local account writes into an empty table.\<close>

definition local_row :: "env \<Rightarrow> nat \<Rightarrow> string \<Rightarrow> string \<Rightarrow> string \<Rightarrow> user_row" where
  "local_row E n username password now =
     \<lparr>col_id = n,
      col_user_id = JStr (local_user_id username),
      col_user_name = JStr username,
      col_role = JStr ''user'',
      col_credit = JInt 0,
      col_token = JInt 0,
      col_sso_token = JStr (sha256_hexdigest E password),
      col_api_key = JStr [],
      col_created_at = now,
      col_updated_at = now\<rparr>"



text \<open>
  An SSO account whose display name is \<^verbatim>\<open>alice\<close> and whose stored token is the digest of
  a password.
\<close>

definition namesake_row :: user_row where
  "namesake_row =
     \<lparr>col_id = 1,
      col_user_id = JStr ''sso-7'',
      col_user_name = JStr ''alice'',
      col_role = JStr ''user'',
      col_credit = JInt 0,
      col_token = JInt 0,
      col_sso_token = JStr (sha256_hexdigest ref_env ''password123''),
      col_api_key = JStr [],
      col_created_at = ''2025-01-01T00:00:00'',
      col_updated_at = ''2025-01-01T00:00:00''\<rparr>"

text \<open>
  What the round trip of a token needs of the codecs of the environment: the JSON texts of
  the header and of the payload are read back as they were written, the base64 texts of
  both and of the signature are decoded to what was encoded, and no base64 text holds a
  dot.
\<close>

definition carries :: "env \<Rightarrow> string \<Rightarrow> pydict \<Rightarrow> bool" where
  "carries E key payload =
     (let header_text = json_dumps E jwt_header;
          payload_text = json_dumps E (JObject payload);
          signing_input = b64url_encode E header_text @ ''.'' @ b64url_encode E payload_text;
          signature = hmac_sha256 E key signing_input
      in json_loads E header_text = Some jwt_header
         \<and> json_loads E payload_text = Some (JObject payload)
         \<and> b64url_decode E (b64url_encode E header_text) = Some header_text
         \<and> b64url_decode E (b64url_encode E payload_text) = Some payload_text
         \<and> b64url_decode E (b64url_encode E signature) = Some signature
         \<and> CHR ''.'' \<notin> set (b64url_encode E header_text)
         \<and> CHR ''.'' \<notin> set (b64url_encode E payload_text)
         \<and> CHR ''.'' \<notin> set (b64url_encode E signature))"

text \<open>The claims of a session token.\<close>

definition session_claims :: "int \<Rightarrow> int \<Rightarrow> json \<Rightarrow> json \<Rightarrow> json \<Rightarrow> pydict" where
  "session_claims iat exp user_id user_name role =
     [(''sub'', user_id), (''name'', user_name), (''role'', role),
      (''iat'', JInt iat), (''exp'', JInt exp)]"


text \<open>
  An envelope is well formed when the body is an object and its \<^verbatim>\<open>data\<close>, \<^verbatim>\<open>user_info\<close> and
  \<^verbatim>\<open>balance\<close> parts, where present and not empty, are objects.
\<close>

definition wellformed_envelope :: "json \<Rightarrow> bool" where
  "wellformed_envelope body =
     (case body of
        JObject b \<Rightarrow>
          (case py_or (dict_get b ''data'' JNull) body of
             JObject d \<Rightarrow>
               (case py_or (dict_get d ''user_info'' JNull) (JObject d) of
                  JObject u \<Rightarrow>
                    (case py_or (dict_get d ''balance'' JNull) (JObject []) of
                       JObject bal \<Rightarrow> True
                     | _ \<Rightarrow> False)
                | _ \<Rightarrow> False)
           | _ \<Rightarrow> False)
      | _ \<Rightarrow> False)"

section \<open>Basic facts\<close>

declare int_digits.simps [simp del]

lemma bind_exc_simps [simp]:
  "bind_exc (Inl e) f = Inl e"
  "bind_exc (Inr x) f = f x"
  by (simp_all add: bind_exc_def)

lemma sql_eq_JStr [simp]:
  "sql_eq a (JStr s) = (a = JStr s)"
  "sql_eq (JStr s) b = (b = JStr s)"
  by (auto simp: sql_eq_def)

lemma identity_of_body_malformed:
  "\<not> wellformed_envelope body \<Longrightarrow> \<exists>e. identity_of_body body = Inl e"
  by (auto simp: wellformed_envelope_def identity_of_body_def bind_exc_def Let_def
        split: json.splits sum.splits)

lemma identity_of_body_wellformed:
  assumes "py_or (dict_get b ''data'' JNull) (JObject b) = JObject d"
    and "py_or (dict_get d ''user_info'' JNull) (JObject d) = JObject u"
    and "py_or (dict_get d ''balance'' JNull) (JObject []) = JObject bal"
  shows "identity_of_body (JObject b) =
     Inr [(''user_id'', JStr (py_str (dict_get u ''user_id'' (dict_get u ''id'' (JStr []))))),
          (''user_name'', dict_get u ''user_name'' (dict_get u ''name'' (JStr []))),
          (''api_key'', dict_get d ''api_key'' (dict_get u ''api_key'' (JStr []))),
          (''credit'', dict_get bal ''credit'' (dict_get d ''credit'' (JInt 0))),
          (''token'', dict_get bal ''token'' (dict_get d ''token'' (JInt 0))),
          (''role'', dict_get u ''role'' (JStr ''user''))]"
  using assms by (simp add: identity_of_body_def Let_def)

section \<open>What the exchange returns\<close>

text \<open>
  Claim C1. The exchange of an SSO token never raises, and it returns \<open>None\<close> when the call
  fails in transport, when the status is not 200, when the body is not JSON, and when the
  envelope is not well formed. On a 200 response whose envelope is well formed, nested or
  flat, it returns an identity, whose subject id is \<^verbatim>\<open>str\<close> of the value found under
  \<^verbatim>\<open>user_id\<close>, else under \<^verbatim>\<open>id\<close>, else of the empty string: an identity is returned also when
  the subject id is missing, and its \<^verbatim>\<open>user_id\<close> is then empty. The exchange does not refuse
  it.
\<close>

theorem exchange_sso_token_outcomes:
  "(remote (''Bearer '' @ tok) = TransportFailure \<longrightarrow> exchange_sso_token remote tok = None)
   \<and> (remote (''Bearer '' @ tok) = Response status parsed \<and> status \<noteq> 200
          \<longrightarrow> exchange_sso_token remote tok = None)
   \<and> (remote (''Bearer '' @ tok) = Response 200 None \<longrightarrow> exchange_sso_token remote tok = None)
   \<and> (remote (''Bearer '' @ tok) = Response 200 (Some body) \<and> \<not> wellformed_envelope body
          \<longrightarrow> exchange_sso_token remote tok = None)
   \<and> (remote (''Bearer '' @ tok) = Response 200 (Some (JObject b))
          \<and> py_or (dict_get b ''data'' JNull) (JObject b) = JObject d
          \<and> py_or (dict_get d ''user_info'' JNull) (JObject d) = JObject u
          \<and> py_or (dict_get d ''balance'' JNull) (JObject []) = JObject bal
          \<longrightarrow> (\<exists>ident. exchange_sso_token remote tok = Some ident
                 \<and> map_of ident ''user_id''
                     = Some (JStr (py_str (dict_get u ''user_id'' (dict_get u ''id'' (JStr [])))))
                 \<and> (map_of u ''user_id'' = None \<and> map_of u ''id'' = None
                      \<longrightarrow> map_of ident ''user_id'' = Some (JStr []))))"
proof (intro conjI impI)
  assume "remote (''Bearer '' @ tok) = TransportFailure"
  then show "exchange_sso_token remote tok = None"
    by (simp add: exchange_sso_token_def)
next
  assume "remote (''Bearer '' @ tok) = Response status parsed \<and> status \<noteq> 200"
  then show "exchange_sso_token remote tok = None"
    by (simp add: exchange_sso_token_def)
next
  assume "remote (''Bearer '' @ tok) = Response 200 None"
  then show "exchange_sso_token remote tok = None"
    by (simp add: exchange_sso_token_def)
next
  assume "remote (''Bearer '' @ tok) = Response 200 (Some body) \<and> \<not> wellformed_envelope body"
  then show "exchange_sso_token remote tok = None"
    using identity_of_body_malformed [of body] by (auto simp: exchange_sso_token_def)
next
  assume h: "remote (''Bearer '' @ tok) = Response 200 (Some (JObject b))
          \<and> py_or (dict_get b ''data'' JNull) (JObject b) = JObject d
          \<and> py_or (dict_get d ''user_info'' JNull) (JObject d) = JObject u
          \<and> py_or (dict_get d ''balance'' JNull) (JObject []) = JObject bal"
  then have "identity_of_body (JObject b) =
     Inr [(''user_id'', JStr (py_str (dict_get u ''user_id'' (dict_get u ''id'' (JStr []))))),
          (''user_name'', dict_get u ''user_name'' (dict_get u ''name'' (JStr []))),
          (''api_key'', dict_get d ''api_key'' (dict_get u ''api_key'' (JStr []))),
          (''credit'', dict_get bal ''credit'' (dict_get d ''credit'' (JInt 0))),
          (''token'', dict_get bal ''token'' (dict_get d ''token'' (JInt 0))),
          (''role'', dict_get u ''role'' (JStr ''user''))]"
    by (intro identity_of_body_wellformed) simp_all
  with h show "\<exists>ident. exchange_sso_token remote tok = Some ident
                 \<and> map_of ident ''user_id''
                     = Some (JStr (py_str (dict_get u ''user_id'' (dict_get u ''id'' (JStr [])))))
                 \<and> (map_of u ''user_id'' = None \<and> map_of u ''id'' = None
                      \<longrightarrow> map_of ident ''user_id'' = Some (JStr []))"
    by (simp add: exchange_sso_token_def dict_get_def)
qed

text \<open>The five cases, each at a concrete answer of the endpoint.\<close>

theorem exchange_sso_token_outcomes_witness:
  "exchange_sso_token (answers_with TransportFailure) ''opaque'' = None
   \<and> exchange_sso_token (answers_with (Response 503 None)) ''opaque'' = None
   \<and> exchange_sso_token (answers_with (Response 200 None)) ''opaque'' = None
   \<and> exchange_sso_token
         (answers_with (Response 200 (Some (JObject [(''data'', JStr ''denied'')])))) ''opaque''
       = None
   \<and> (\<exists>ident. exchange_sso_token
                 (answers_with (Response 200 (Some (JObject [(''name'', JStr ''Ann'')])))) ''opaque''
               = Some ident
             \<and> map_of ident ''user_id'' = Some (JStr []))"
proof (intro conjI)
  show "exchange_sso_token (answers_with TransportFailure) ''opaque'' = None"
    using exchange_sso_token_outcomes [of "answers_with TransportFailure" "''opaque''"]
    by (simp add: answers_with_def)
  show "exchange_sso_token (answers_with (Response 503 None)) ''opaque'' = None"
    using exchange_sso_token_outcomes
            [of "answers_with (Response 503 None)" "''opaque''" 503 None]
    by (simp add: answers_with_def)
  show "exchange_sso_token (answers_with (Response 200 None)) ''opaque'' = None"
    using exchange_sso_token_outcomes [of "answers_with (Response 200 None)" "''opaque''"]
    by (simp add: answers_with_def)
  show "exchange_sso_token
          (answers_with (Response 200 (Some (JObject [(''data'', JStr ''denied'')])))) ''opaque''
        = None"
    using exchange_sso_token_outcomes
            [of "answers_with (Response 200 (Some (JObject [(''data'', JStr ''denied'')])))"
                "''opaque''" _ _ "JObject [(''data'', JStr ''denied'')]"]
    by (simp add: answers_with_def wellformed_envelope_def py_or_def dict_get_def)
  show "\<exists>ident. exchange_sso_token
                 (answers_with (Response 200 (Some (JObject [(''name'', JStr ''Ann'')])))) ''opaque''
               = Some ident
             \<and> map_of ident ''user_id'' = Some (JStr [])"
    using exchange_sso_token_outcomes
            [of "answers_with (Response 200 (Some (JObject [(''name'', JStr ''Ann'')])))"
                "''opaque''" _ _ _
                "[(''name'', JStr ''Ann'')]" "[(''name'', JStr ''Ann'')]"
                "[(''name'', JStr ''Ann'')]" "[]"]
    by (simp add: answers_with_def py_or_def dict_get_def)
qed

text \<open>
  As stated, with \<open>None\<close> for a missing subject id, the claim fails: an empty object, and a
  nested envelope that carries a name and no id, both give an identity with an empty
  \<^verbatim>\<open>user_id\<close>.
\<close>

theorem exchange_sso_token_empty_id_counterexample:
  "exchange_sso_token (answers_with (Response 200 (Some (JObject [])))) ''opaque''
     = Some [(''user_id'', JStr []), (''user_name'', JStr []), (''api_key'', JStr []),
             (''credit'', JInt 0), (''token'', JInt 0), (''role'', JStr ''user'')]
   \<and> exchange_sso_token
         (answers_with (Response 200 (Some (JObject
            [(''data'', JObject [(''user_info'', JObject [(''user_name'', JStr ''Ann'')])])]))))
         ''opaque''
     = Some [(''user_id'', JStr []), (''user_name'', JStr ''Ann''), (''api_key'', JStr []),
             (''credit'', JInt 0), (''token'', JInt 0), (''role'', JStr ''user'')]"
  by (simp add: exchange_sso_token_def answers_with_def identity_of_body_def py_or_def
        dict_get_def Let_def)

text \<open>
  The callback of the SSO flow is what refuses an identity without a subject id: it
  redirects to the login page, as it does when the exchange fails, and writes nothing.
\<close>

lemma sso_callback_refuses_empty_id:
  assumes "access_token \<noteq> []"
    and "exchange_sso_token remote access_token = Some ident"
    and "map_of ident ''user_id'' = Some (JStr [])"
  shows "sso_callback E remote now t1 t2 db access_token token code sso_token
     = (Inr (RedirectResponse ''/login?error=SSO+validation+failed'' 307 None), db)"
  using assms by (simp add: sso_callback_def dict_get_def)

lemma sso_callback_refuses_failure:
  assumes "access_token \<noteq> []"
    and "exchange_sso_token remote access_token = None"
  shows "sso_callback E remote now t1 t2 db access_token token code sso_token
     = (Inr (RedirectResponse ''/login?error=SSO+validation+failed'' 307 None), db)"
  using assms by (simp add: sso_callback_def)

section \<open>The upsert\<close>

lemma bind_param_JStr [simp]: "bind_param (JStr s) = Inr (JStr s)"
  by simp





section \<open>Local login\<close>

lemma strip_Nil [simp]: "strip [] = []"
  by (simp add: strip_def)

lemma credentials_of_strings:
  assumes "req_json req = Some (JObject kvs)"
    and "map_of kvs ''username'' = Some (JStr raw)"
    and "map_of kvs ''password'' = Some (JStr password)"
  shows "credentials_of req = Inr (strip raw, JStr password)"
  using assms by (simp add: credentials_of_def dict_get_def py_or_def)


lemma find_Some_ex: "(\<exists>x. find P xs = Some x) \<longleftrightarrow> (\<exists>x \<in> set xs. P x)"
  by (induction xs) auto

lemma find_append_new:
  "\<forall>x \<in> set xs. \<not> P x \<Longrightarrow> P y \<Longrightarrow> find P (xs @ [y]) = Some y"
  by (induction xs) auto

text \<open>The login of a request whose credentials are a name and a string.\<close>

lemma local_login_strings:
  assumes "credentials_of req = Inr (username, JStr password)"
  shows "local_login E t1 t2 db req =
     (if username = [] \<or> password = []
      then Inl (HTTPException 400 ''Username and password are required'')
      else
        (case find (\<lambda>r. (col_user_id r = JStr (local_user_id username)
                         \<or> col_user_name r = JStr username)
                        \<and> col_sso_token r = JStr (sha256_hexdigest E password)) db of
           None \<Rightarrow> Inl (HTTPException 401 ''Invalid username or password'')
         | Some user \<Rightarrow>
             Inr (JSONResponse
                    [(''user_id'', col_user_id user),
                     (''user_name'', col_user_name user),
                     (''redirect'', JStr ''/'')]
                    (Some (''sci_token'',
                           create_jwt E t1 t2 (col_user_id user) (col_user_name user)
                             (col_role user))))))"
  using assms by (simp add: local_login_def Let_def split: option.splits)

lemma credentials_request_strings:
  "credentials_of (credentials_request raw password) = Inr (strip raw, JStr password)"
  by (rule credentials_of_strings [where kvs = "[(''username'', JStr raw), (''password'', JStr password)]"])
     (simp_all add: credentials_request_def)

text \<open>Evaluations on the sample names and passwords.\<close>

lemma strip_samples:
  "strip ''Alice'' = ''Alice''" "strip ''alice'' = ''alice''"
  "strip ''nonexistent'' = ''nonexistent''" "strip ''Bob'' = ''Bob''"
  by code_simp+

lemma local_user_id_samples:
  "local_user_id ''Alice'' = ''local_alice''" "local_user_id ''alice'' = ''local_alice''"
  "local_user_id ''nonexistent'' = ''local_nonexistent''" "local_user_id ''Bob'' = ''local_bob''"
  by code_simp+






section \<open>Local registration\<close>

lemma upsert_user_new_local:
  assumes "\<forall>r \<in> set db. col_user_id r \<noteq> JStr uid"
  shows "upsert_user now db
           [(''user_id'', JStr uid), (''user_name'', JStr username), (''role'', JStr ''user'')]
           pw_hash
         = (Inr [(''user_id'', JStr uid), (''user_name'', JStr username), (''role'', JStr ''user'')],
            db @ [\<lparr>col_id = next_id db,
                    col_user_id = JStr uid,
                    col_user_name = JStr username,
                    col_role = JStr ''user'',
                    col_credit = JInt 0,
                    col_token = JInt 0,
                    col_sso_token = JStr pw_hash,
                    col_api_key = JStr [],
                    col_created_at = now,
                    col_updated_at = now\<rparr>])"
proof -
  have "find (\<lambda>r. sql_eq (col_user_id r) (JStr uid)) db = None"
    using assms by (simp add: find_None_iff)
  then show ?thesis
    by (simp add: upsert_user_def upsert_statements_def dict_item_def dict_get_def)
qed

lemma local_register_strings:
  assumes "credentials_of req = Inr (username, JStr password)"
  shows "local_register E now t1 t2 db req =
     (if username = [] \<or> password = []
      then (Inl (HTTPException 400 ''Username and password are required''), db)
      else if length password < 8
      then (Inl (HTTPException 400 ''Password must be at least 8 characters''), db)
      else if \<exists>r \<in> set db. col_user_id r = JStr (local_user_id username)
                              \<or> col_user_name r = JStr username
      then (Inl (HTTPException 400 ''Username already taken''), db)
      else (Inr (JSONResponse
                   [(''user_id'', JStr (local_user_id username)),
                    (''user_name'', JStr username),
                    (''status'', JStr ''registered''),
                    (''redirect'', JStr ''/'')]
                   (Some (''sci_token'',
                          create_jwt E t1 t2 (JStr (local_user_id username)) (JStr username)
                            (JStr ''user'')))),
            db @ [local_row E (next_id db) username password now]))"
proof -
  let ?P = "\<lambda>r. col_user_id r = JStr (local_user_id username) \<or> col_user_name r = JStr username"
  show ?thesis
  proof (cases "find ?P db")
    case None
    then have free: "\<forall>r \<in> set db. \<not> ?P r"
      by (simp add: find_None_iff)
    then have "\<forall>r \<in> set db. col_user_id r \<noteq> JStr (local_user_id username)"
      by blast
    note ins = upsert_user_new_local [OF this]
    show ?thesis
      using assms None free
      by (simp add: local_register_def Let_def ins local_row_def)
  next
    case (Some existing)
    then have "\<exists>r \<in> set db. ?P r"
      using find_Some_ex [of ?P db] by blast
    then show ?thesis
      using assms Some by (simp add: local_register_def Let_def)
  qed
qed

lemma local_register_success:
  assumes "local_register E now t1 t2 db req = (Inr resp, db')"
  shows "\<exists>username password.
           credentials_of req = Inr (username, JStr password)
         \<and> username \<noteq> [] \<and> password \<noteq> []
         \<and> (\<forall>r \<in> set db. col_user_id r \<noteq> JStr (local_user_id username)
                           \<and> col_user_name r \<noteq> JStr username)
         \<and> resp = JSONResponse
                     [(''user_id'', JStr (local_user_id username)),
                      (''user_name'', JStr username),
                      (''status'', JStr ''registered''),
                      (''redirect'', JStr ''/'')]
                     (Some (''sci_token'',
                            create_jwt E t1 t2 (JStr (local_user_id username)) (JStr username)
                              (JStr ''user'')))
         \<and> db' = db @ [local_row E (next_id db) username password now]"
proof -
  from assms obtain username pw where c: "credentials_of req = Inr (username, pw)"
    by (auto simp: local_register_def split: sum.splits prod.splits)
  with assms obtain password where pw: "pw = JStr password"
    by (cases pw) (auto simp: local_register_def split: if_splits sum.splits)
  note run = local_register_strings [OF c [unfolded pw], of E now t1 t2 db]
  from assms show ?thesis
    unfolding run using c pw by (auto split: if_splits)
qed


lemma strip_blank: "strip ''  '' = []"
  by code_simp

lemma next_id_samples: "next_id [] = 1" "next_id [namesake_row] = 2"
  by (simp_all add: next_id_def namesake_row_def)




text \<open>
  A name that consists of blanks counts as empty: the name is trimmed before it is tested.
\<close>

lemma local_register_blank_name:
  "local_register ref_env ''2025-01-01T00:00:00'' 1000 1000 []
      (credentials_request ''  '' ''password123'')
     = (Inl (HTTPException 400 ''Username and password are required''), [])"
  by (simp add: local_register_strings [OF credentials_request_strings] strip_blank)

text \<open>
  Claim C7. Every failing path of the registration leaves the directory as it was: whatever
  the request and whatever the exception, the table after the call is the table before
  it. In particular a password that is too short creates no record, and a conflict leaves
  the existing record unmodified.
\<close>

theorem local_register_failure_keeps_directory:
  assumes "fst (local_register E now t1 t2 db req) = Inl e"
  shows "snd (local_register E now t1 t2 db req) = db"
  using assms
  by (auto simp: local_register_def upsert_user_def Let_def
           split: sum.splits prod.splits option.splits if_splits)

text \<open>The short password on an empty table, and the conflict with a registered name.\<close>

theorem local_register_failure_keeps_directory_witness:
  "snd (local_register ref_env ''2025-01-01T00:00:00'' 1000 1000 []
          (credentials_request ''Bob'' ''short'')) = []
   \<and> snd (local_register ref_env ''2025-03-03T00:00:00'' 1000 1000
            [local_row ref_env 1 ''Alice'' ''password123'' ''2025-01-01T00:00:00'']
            (credentials_request ''alice'' ''another-password''))
       = [local_row ref_env 1 ''Alice'' ''password123'' ''2025-01-01T00:00:00'']"
proof (intro conjI)
  have short: "fst (local_register ref_env ''2025-01-01T00:00:00'' 1000 1000 []
                     (credentials_request ''Bob'' ''short''))
                 = Inl (HTTPException 400 ''Password must be at least 8 characters'')"
    by (simp add: local_register_strings [OF credentials_request_strings] strip_samples)
  show "snd (local_register ref_env ''2025-01-01T00:00:00'' 1000 1000 []
          (credentials_request ''Bob'' ''short'')) = []"
    by (rule local_register_failure_keeps_directory [OF short])
  have taken: "fst (local_register ref_env ''2025-03-03T00:00:00'' 1000 1000
            [local_row ref_env 1 ''Alice'' ''password123'' ''2025-01-01T00:00:00'']
            (credentials_request ''alice'' ''another-password''))
          = Inl (HTTPException 400 ''Username already taken'')"
    by (simp add: local_register_strings [OF credentials_request_strings] strip_samples
          local_user_id_samples local_row_def)
  show "snd (local_register ref_env ''2025-03-03T00:00:00'' 1000 1000
            [local_row ref_env 1 ''Alice'' ''password123'' ''2025-01-01T00:00:00'']
            (credentials_request ''alice'' ''another-password''))
       = [local_row ref_env 1 ''Alice'' ''password123'' ''2025-01-01T00:00:00'']"
    by (rule local_register_failure_keeps_directory [OF taken])
qed

section \<open>Registration, then login\<close>

text \<open>
  Claim C8. When a registration succeeds, the login with the same request on the table that
  the registration left succeeds too, and its response carries the subject id that the
  response of the registration carried.
\<close>

theorem register_then_login:
  assumes "local_register E now t1 t2 db req = (Inr (JSONResponse content cookie), db')"
  shows "\<exists>content' cookie'.
           local_login E t3 t4 db' req = Inr (JSONResponse content' cookie')
         \<and> map_of content' ''user_id'' = map_of content ''user_id''
         \<and> map_of content ''user_id'' \<noteq> None"
proof -
  from local_register_success [OF assms]
  obtain username password where
    c: "credentials_of req = Inr (username, JStr password)"
    and ne: "username \<noteq> []" "password \<noteq> []"
    and free: "\<forall>r \<in> set db. col_user_id r \<noteq> JStr (local_user_id username)
                              \<and> col_user_name r \<noteq> JStr username"
    and content: "content = [(''user_id'', JStr (local_user_id username)),
                             (''user_name'', JStr username),
                             (''status'', JStr ''registered''),
                             (''redirect'', JStr ''/'')]"
    and db': "db' = db @ [local_row E (next_id db) username password now]"
    by blast
  let ?P = "\<lambda>r. (col_user_id r = JStr (local_user_id username) \<or> col_user_name r = JStr username)
                 \<and> col_sso_token r = JStr (sha256_hexdigest E password)"
  have "find ?P db' = Some (local_row E (next_id db) username password now)"
    unfolding db' using free by (intro find_append_new) (auto simp: local_row_def)
  then show ?thesis
    using ne content by (simp add: local_login_strings [OF c] local_row_def)
qed

text \<open>Alice registers on an empty table and logs in.\<close>

theorem register_then_login_witness:
  "\<exists>content' cookie'.
     local_login ref_env 2000 2000
       [local_row ref_env 1 ''Alice'' ''password123'' ''2025-01-01T00:00:00'']
       (credentials_request ''Alice'' ''password123'')
       = Inr (JSONResponse content' cookie')
     \<and> map_of content' ''user_id'' = Some (JStr ''local_alice'')"
proof -
  have reg: "local_register ref_env ''2025-01-01T00:00:00'' 1000 1000 []
         (credentials_request ''Alice'' ''password123'')
       = (Inr (JSONResponse
                 [(''user_id'', JStr ''local_alice''), (''user_name'', JStr ''Alice''),
                  (''status'', JStr ''registered''), (''redirect'', JStr ''/'')]
                 (Some (''sci_token'',
                        create_jwt ref_env 1000 1000 (JStr ''local_alice'') (JStr ''Alice'')
                          (JStr ''user'')))),
          [local_row ref_env 1 ''Alice'' ''password123'' ''2025-01-01T00:00:00''])"
    by (simp add: local_register_strings [OF credentials_request_strings] strip_samples
          local_user_id_samples next_id_samples)
  from register_then_login [OF reg, of 2000 2000] show ?thesis
    by simp
qed




section \<open>Session tokens\<close>

lemma takeWhile_until: "c \<notin> set a \<Longrightarrow> takeWhile (\<lambda>x. x \<noteq> c) (a @ c # b) = a"
  by (induction a) auto

lemma dropWhile_until: "c \<notin> set a \<Longrightarrow> dropWhile (\<lambda>x. x \<noteq> c) (a @ c # b) = c # b"
  by (induction a) auto

lemma split_first_append:
  "c \<notin> set a \<Longrightarrow> split_first c (a @ c # b) = Some (a, b)"
  by (simp add: split_first_def takeWhile_until dropWhile_until)

lemma split_last_append:
  assumes "c \<notin> set b"
  shows "split_last c (a @ c # b) = Some (a, b)"
proof -
  have "rev (a @ c # b) = rev b @ c # rev a"
    by simp
  moreover have "c \<notin> set (rev b)"
    using assms by simp
  ultimately show ?thesis
    by (simp add: split_last_def split_first_append del: rev_append rev.simps)
qed

lemma token_parts_encode:
  assumes "carries E key payload"
  shows "token_parts E (jwt_encode E payload key)
     = Some ([(''alg'', JStr ''HS256''), (''typ'', JStr ''JWT'')], payload,
             b64url_encode E (json_dumps E jwt_header) @ ''.''
               @ b64url_encode E (json_dumps E (JObject payload)),
             hmac_sha256 E key
               (b64url_encode E (json_dumps E jwt_header) @ ''.''
                  @ b64url_encode E (json_dumps E (JObject payload))))"
proof -
  let ?h = "b64url_encode E (json_dumps E jwt_header)"
  let ?p = "b64url_encode E (json_dumps E (JObject payload))"
  let ?s = "b64url_encode E (hmac_sha256 E key (?h @ ''.'' @ ?p))"
  from assms have c:
    "json_loads E (json_dumps E jwt_header) = Some jwt_header"
    "json_loads E (json_dumps E (JObject payload)) = Some (JObject payload)"
    "b64url_decode E ?h = Some (json_dumps E jwt_header)"
    "b64url_decode E ?p = Some (json_dumps E (JObject payload))"
    "b64url_decode E ?s = Some (hmac_sha256 E key (?h @ ''.'' @ ?p))"
    "CHR ''.'' \<notin> set ?h" "CHR ''.'' \<notin> set ?p" "CHR ''.'' \<notin> set ?s"
    by (simp_all add: carries_def Let_def)
  have enc: "jwt_encode E payload key = (?h @ ''.'' @ ?p) @ CHR ''.'' # ?s"
    by (simp add: jwt_encode_def Let_def)
  have l: "split_last CHR ''.'' (jwt_encode E payload key) = Some (?h @ ''.'' @ ?p, ?s)"
    unfolding enc using c(8) by (rule split_last_append)
  have f: "split_first CHR ''.'' (?h @ ''.'' @ ?p) = Some (?h, ?p)"
    using split_first_append [OF c(6), of ?p] by simp
  have "jws_load E (jwt_encode E payload key)
      = Inr (json_dumps E (JObject payload), ?h @ ''.'' @ ?p,
             [(''alg'', JStr ''HS256''), (''typ'', JStr ''JWT'')],
             hmac_sha256 E key (?h @ ''.'' @ ?p))"
    using c(1,3,4,5) l f by (simp add: jws_load_def jwt_header_def JWT_ALGORITHM_def)
  then show ?thesis
    using c(2) by (simp add: token_parts_def)
qed

text \<open>Decoding in terms of the parts of the token.\<close>

lemma jwt_decode_parts:
  "jwt_decode E token key [''HS256''] now =
     (case token_parts E token of
        None \<Rightarrow> Inl (case jws_load E token of
                       Inl e \<Rightarrow> e
                     | Inr (payload_data, signing_input, header, signature) \<Rightarrow>
                         (case verify_signature E signing_input header signature key [''HS256''] of
                            Inl e \<Rightarrow> e
                          | Inr _ \<Rightarrow> DecodeError))
      | Some (header, payload, signing_input, signature) \<Rightarrow>
          bind_exc (verify_signature E signing_input header signature key [''HS256'']) (\<lambda>_.
          bind_exc (validate_claims payload now) (\<lambda>_. Inr payload)))"
  by (auto simp: jwt_decode_def token_parts_def bind_exc_def
           split: sum.splits option.splits json.splits prod.splits)

lemma verify_signature_cases:
  "verify_signature E signing_input header signature key [''HS256''] =
     (if map_of header ''alg'' \<noteq> Some (JStr ''HS256'') then Inl InvalidAlgorithmError
      else if hmac_sha256 E key signing_input \<noteq> signature then Inl InvalidSignatureError
      else Inr ())"
  by (auto simp: verify_signature_def split: option.splits)

lemma validate_claims_errors:
  "validate_claims payload now = Inl e \<Longrightarrow> is_InvalidTokenError e"
  by (auto simp: validate_claims_def validate_iat_def validate_nbf_def validate_exp_def
        validate_aud_def bind_exc_def is_InvalidTokenError_def
        split: option.splits json.splits if_splits sum.splits)

lemma jws_load_errors:
  "jws_load E token = Inl e \<Longrightarrow> e = DecodeError"
  by (auto simp: jws_load_def split: option.splits json.splits prod.splits)

lemma jwt_decode_errors:
  assumes "jwt_decode E token key [''HS256''] now = Inl e"
  shows "is_InvalidTokenError e"
proof (cases "token_parts E token")
  case None
  with assms show ?thesis
    by (auto simp: jwt_decode_parts verify_signature_cases is_InvalidTokenError_def
          dest: jws_load_errors split: sum.splits prod.splits if_splits)
next
  case (Some parts)
  with assms show ?thesis
    by (cases parts)
       (auto simp: jwt_decode_parts verify_signature_cases bind_exc_def is_InvalidTokenError_def
          dest: validate_claims_errors split: sum.splits if_splits)
qed

lemma verify_jwt_parts:
  "verify_jwt E now token =
     (case token_parts E token of
        None \<Rightarrow> Inr None
      | Some (header, payload, signing_input, signature) \<Rightarrow>
          if map_of header ''alg'' \<noteq> Some (JStr ''HS256'') then Inr None
          else if hmac_sha256 E (JWT_SECRET E) signing_input \<noteq> signature then Inr None
          else if validate_claims payload now \<noteq> Inr () then Inr None
          else Inr (Some payload))"
proof (cases "jwt_decode E token (JWT_SECRET E) [''HS256''] now")
  case (Inl e)
  then have v: "verify_jwt E now token = Inr None"
    using jwt_decode_errors [OF Inl] by (simp add: verify_jwt_def JWT_ALGORITHM_def)
  from Inl show ?thesis
    unfolding v
    by (auto simp: jwt_decode_parts verify_signature_cases bind_exc_def
          split: option.splits prod.splits if_splits sum.splits)
next
  case (Inr payload)
  then have v: "verify_jwt E now token = Inr (Some payload)"
    by (simp add: verify_jwt_def JWT_ALGORITHM_def)
  from Inr show ?thesis
    unfolding v
    by (auto simp: jwt_decode_parts verify_signature_cases bind_exc_def
          split: option.splits prod.splits if_splits sum.splits)
qed


lemma verify_jwt_total: "\<exists>r. verify_jwt E now token = Inr r"
  by (auto simp: verify_jwt_parts split: option.splits prod.splits)

lemma validate_claims_session:
  assumes "t_iat \<le> now" and "now < t_exp"
  shows "validate_claims (session_claims t_iat t_exp uid name role) now = Inr ()"
  using assms
  by (simp add: validate_claims_def validate_iat_def validate_nbf_def validate_exp_def
        validate_aud_def session_claims_def)

lemma create_jwt_claims:
  "create_jwt E t_iat t_exp uid name role
     = jwt_encode E (session_claims t_iat (t_exp + JWT_EXPIRY) uid name role) (JWT_SECRET E)"
  by (simp add: create_jwt_def session_claims_def)

lemma verify_create_jwt:
  assumes "carries E (JWT_SECRET E) (session_claims t_iat (t_exp + JWT_EXPIRY) uid name role)"
    and "t_iat \<le> now" and "now < t_exp + JWT_EXPIRY"
  shows "verify_jwt E now (create_jwt E t_iat t_exp uid name role)
     = Inr (Some (session_claims t_iat (t_exp + JWT_EXPIRY) uid name role))"
  by (simp add: verify_jwt_parts create_jwt_claims token_parts_encode [OF assms(1)]
        validate_claims_session [OF assms(2,3)])


text \<open>The claims that pass the checks of the library.\<close>

lemma bind_exc_unit:
  "bind_exc r (\<lambda>_. k) = Inr () \<longleftrightarrow> r = Inr () \<and> k = Inr ()"
  by (cases r) auto

lemma validate_iat_accepts:
  "validate_iat payload now = Inr () \<longleftrightarrow>
     (case map_of payload ''iat'' of None \<Rightarrow> True | Some (JInt iat) \<Rightarrow> iat \<le> now | Some _ \<Rightarrow> False)"
  by (simp add: validate_iat_def split: option.splits json.splits)

lemma validate_nbf_accepts:
  "validate_nbf payload now = Inr () \<longleftrightarrow>
     (case map_of payload ''nbf'' of None \<Rightarrow> True | Some (JInt nbf) \<Rightarrow> nbf \<le> now | Some _ \<Rightarrow> False)"
  by (simp add: validate_nbf_def split: option.splits json.splits)

lemma validate_exp_accepts:
  "validate_exp payload now = Inr () \<longleftrightarrow>
     (case map_of payload ''exp'' of None \<Rightarrow> True | Some (JInt exp) \<Rightarrow> now < exp | Some _ \<Rightarrow> False)"
  by (simp add: validate_exp_def split: option.splits json.splits)

lemma validate_aud_accepts:
  "validate_aud payload = Inr () \<longleftrightarrow>
     (case map_of payload ''aud'' of None \<Rightarrow> True | Some aud \<Rightarrow> \<not> truthy aud)"
  by (simp add: validate_aud_def split: option.splits)

lemma validate_claims_accepts:
  "validate_claims payload now = Inr () \<longleftrightarrow>
     (case map_of payload ''iat'' of None \<Rightarrow> True | Some (JInt iat) \<Rightarrow> iat \<le> now | Some _ \<Rightarrow> False)
   \<and> (case map_of payload ''nbf'' of None \<Rightarrow> True | Some (JInt nbf) \<Rightarrow> nbf \<le> now | Some _ \<Rightarrow> False)
   \<and> (case map_of payload ''exp'' of None \<Rightarrow> True | Some (JInt exp) \<Rightarrow> now < exp | Some _ \<Rightarrow> False)
   \<and> (case map_of payload ''aud'' of None \<Rightarrow> True | Some aud \<Rightarrow> \<not> truthy aud)"
  unfolding validate_claims_def bind_exc_unit
    validate_iat_accepts validate_nbf_accepts validate_exp_accepts validate_aud_accepts
  by (rule refl)

text \<open>The codecs of the reference environment carry the sample tokens.\<close>

lemma carries_alice:
  "carries ref_env (JWT_SECRET ref_env)
     (session_claims 1000 605800 (JStr ''local_alice'') (JStr ''Alice'') (JStr ''user''))"
  by code_simp



lemma jwt_encode_not_empty: "jwt_encode E payload key \<noteq> []"
  by (simp add: jwt_encode_def Let_def)

text \<open>
  Claim C2. A session token that is verified before it expires gives back the subject id,
  the display name and the role it was issued for (lemma \<open>verify_create_jwt\<close>). Its expiry,
  however, is counted from the second reading of the clock and its issued-at time is the
  first: when the clock passes a full second between the two readings, here from 999 to
  1000, the expiry lies 7 days and one second after the issued-at time.
\<close>

theorem create_jwt_clock_tick:
  "verify_jwt ref_env 1000
     (create_jwt ref_env 999 1000 (JStr ''local_alice'') (JStr ''Alice'') (JStr ''user''))
   = Inr (Some [(''sub'', JStr ''local_alice''), (''name'', JStr ''Alice''),
                (''role'', JStr ''user''), (''iat'', JInt 999), (''exp'', JInt 605800)])"
  by code_simp





section \<open>Required and optional authentication\<close>

text \<open>
  Claim C9. For every request, directory and time, the optional dependency returns \<open>None\<close>
  exactly when the required one raises an HTTP error of status 401, and whenever the
  optional one returns a user context, the required one returns the same.
\<close>

theorem optional_user_agrees_with_current_user:
  "(get_optional_user E now db req = Inr None \<longleftrightarrow>
      (\<exists>detail. get_current_user E now db req = Inl (HTTPException 401 detail)))
   \<and> (\<forall>user. get_optional_user E now db req = Inr (Some user) \<longrightarrow>
               get_current_user E now db req = Inr user)"
proof -
  obtain r where r: "verify_jwt E now (the (extract_jwt_from_request req)) = Inr r"
    using verify_jwt_total by blast
  have keyerror: "\<And>payload k v. dict_item payload k = Inl v \<Longrightarrow> v = KeyError"
    by (auto simp: dict_item_def split: option.splits)
  have binderror: "\<And>x v. bind_param x = Inl v \<Longrightarrow> v = InterfaceError \<or> v = OverflowError"
    subgoal for x v by (cases x) (auto split: if_splits)
    done
  have usererror: "\<And>x v. get_user db x = Inl v \<Longrightarrow> v = InterfaceError \<or> v = OverflowError"
    by (auto simp: get_user_def bind_exc_def dest: binderror split: sum.splits)
  have builderror: "\<And>p u v. build_user_dict p u = Inl v \<Longrightarrow> v = KeyError"
    by (auto simp: build_user_dict_def bind_exc_def Let_def dest: keyerror
          split: sum.splits option.splits if_splits)
  show ?thesis
    using r
    by (auto simp: get_optional_user_def get_current_user_def bind_exc_def
          dest: keyerror usererror builderror
          split: option.splits sum.splits if_splits)
qed

text \<open>A request without a token, and a request with a session token in the cookie.\<close>

theorem optional_user_agrees_with_current_user_witness:
  "get_optional_user ref_env 2000 []
      \<lparr>req_cookies = Map.empty, req_headers = Map.empty, req_json = None\<rparr> = Inr None
   \<and> get_current_user ref_env 2000 []
        \<lparr>req_cookies = Map.empty, req_headers = Map.empty, req_json = None\<rparr>
      = Inl (HTTPException 401 ''Not authenticated'')
   \<and> get_current_user ref_env 2000
        [local_row ref_env 1 ''Alice'' ''password123'' ''2025-01-01T00:00:00'']
        (cookie_request
           (create_jwt ref_env 1000 1000 (JStr ''local_alice'') (JStr ''Alice'') (JStr ''user'')))
      = Inr [(''user_id'', JStr ''local_alice''), (''user_name'', JStr ''Alice''),
             (''role'', JStr ''user''), (''credit'', JInt 0), (''token'', JInt 0)]"
proof (intro conjI)
  let ?anonymous = "\<lparr>req_cookies = Map.empty, req_headers = Map.empty, req_json = None\<rparr>"
  let ?token = "create_jwt ref_env 1000 1000 (JStr ''local_alice'') (JStr ''Alice'') (JStr ''user'')"
  let ?db = "[local_row ref_env 1 ''Alice'' ''password123'' ''2025-01-01T00:00:00'']"
  show none: "get_optional_user ref_env 2000 [] ?anonymous = Inr None"
    by (simp add: get_optional_user_def extract_jwt_from_request_def startswith_def)
  have "\<exists>detail. get_current_user ref_env 2000 [] ?anonymous = Inl (HTTPException 401 detail)"
    using optional_user_agrees_with_current_user [of ref_env 2000 "[]" ?anonymous] none
    by blast
  then show "get_current_user ref_env 2000 [] ?anonymous
      = Inl (HTTPException 401 ''Not authenticated'')"
    by (simp add: get_current_user_def extract_jwt_from_request_def startswith_def)
  have verified: "verify_jwt ref_env 2000 ?token
      = Inr (Some (session_claims 1000 605800 (JStr ''local_alice'') (JStr ''Alice'')
                     (JStr ''user'')))"
    using verify_create_jwt [of ref_env 1000 1000 "JStr ''local_alice''" "JStr ''Alice''"
                               "JStr ''user''" 2000] carries_alice
    by (simp add: JWT_EXPIRY_def)
  have "?token \<noteq> []"
    by (simp add: create_jwt_def jwt_encode_not_empty)
  then have some: "get_optional_user ref_env 2000 ?db (cookie_request ?token)
      = Inr (Some [(''user_id'', JStr ''local_alice''), (''user_name'', JStr ''Alice''),
                   (''role'', JStr ''user''), (''credit'', JInt 0), (''token'', JInt 0)])"
    by (simp add: get_optional_user_def extract_jwt_from_request_def cookie_request_def
          verified session_claims_def dict_item_def get_user_def local_row_def
          local_user_id_samples row_dict_def build_user_dict_def dict_get_def py_or_def Let_def)
  show "get_current_user ref_env 2000 ?db (cookie_request ?token)
      = Inr [(''user_id'', JStr ''local_alice''), (''user_name'', JStr ''Alice''),
             (''role'', JStr ''user''), (''credit'', JInt 0), (''token'', JInt 0)]"
    using optional_user_agrees_with_current_user [of ref_env 2000 ?db "cookie_request ?token"]
      some
    by blast
qed

end
